theory Spec2Isabelle
  imports Complex_Main
begin

section \<open>JavaScript values\<close>

text \<open>
  The analysis code of the dashboard is TypeScript that runs in the browser. Its numbers
  are modelled as \<^typ>\<open>real\<close>: the arithmetic of the source (sums, products, quotients,
  \<open>Math.min\<close>, \<open>Math.max\<close>, \<open>Math.abs\<close>) is read exactly, without the rounding error
  of IEEE doubles and without \<open>NaN\<close> or infinities. Where the source can meet \<open>NaN\<close> on
  purpose (\<open>getMonth()\<close> of an invalid date) the value is an \<open>option\<close>.

  \<open>Math.round\<close> rounds to the nearest integer, and a tie towards plus infinity.
\<close>

definition Math_round :: "real \<Rightarrow> real" where
  "Math_round x = of_int \<lfloor>x + 1 / 2\<rfloor>"

text \<open>
  A \<open>Date\<close> holds a time value, milliseconds since the epoch in UTC, of magnitude at most
  8.64e15, or it is an invalid date. \<open>new Date(t)\<close> outside that range is invalid.
\<close>

datatype Date = Date int | InvalidDate

definition msPerDay :: int where
  "msPerDay = 24 * 60 * 60 * 1000"

definition maxTime :: int where
  "maxTime = 8640000000000000"

definition new_Date :: "int option \<Rightarrow> Date" where
  "new_Date t = (case t of
       None \<Rightarrow> InvalidDate
     | Some ms \<Rightarrow> if \<bar>ms\<bar> \<le> maxTime then Date ms else InvalidDate)"

fun getTime :: "Date \<Rightarrow> int option" where
  "getTime (Date ms) = Some ms"
| "getTime InvalidDate = None"

datatype js_error =
    RangeError_InvalidTime
  | NoBackendConfigured
  | FetchRejected
  | BackendError nat
  | JsonRejected
  | TypeError_undefined

text \<open>
  \<open>d.toISOString().split('T')[0]\<close> is the UTC calendar day of \<open>d\<close> written as
  year-month-day; \<open>toISOString\<close> throws a \<open>RangeError\<close> on an invalid date. The text is
  a one-to-one rendering of the day number \<open>floor (t / msPerDay)\<close>, and the model keeps
  the day number in its place.
\<close>

type_synonym iso_day = int

fun toISOString_day :: "Date \<Rightarrow> js_error + iso_day" where
  "toISOString_day (Date ms) = Inr (ms div msPerDay)"
| "toISOString_day InvalidDate = Inl RangeError_InvalidTime"

text \<open>
  What a run reads from the browser and not from its arguments: the successive values of
  \<open>Math.random()\<close> (the \<open>i\<close>-th call of a run returns \<open>random i\<close>, each in \<open>[0, 1)\<close>),
  the clock behind \<open>new Date()\<close>, and the local calendar month (0 to 11) of a time value,
  which \<open>getMonth()\<close> returns.
\<close>

record js_env =
  random :: "nat \<Rightarrow> real"
  now :: int
  local_month :: "int \<Rightarrow> nat"


fun getMonth :: "js_env \<Rightarrow> Date \<Rightarrow> nat option" where
  "getMonth env (Date ms) = Some (local_month env ms)"
| "getMonth env InvalidDate = None"

text \<open>A comparison with \<open>NaN\<close> is false.\<close>

fun holds :: "nat option \<Rightarrow> (nat \<Rightarrow> bool) \<Rightarrow> bool" where
  "holds None P = False"
| "holds (Some m) P = P m"

section \<open>The data of an analysis\<close>

datatype trend = increasing | decreasing | stable

text \<open>
  A threshold label such as \<open>>32\<degree>C\<close> or \<open><${thresholds.coldTemp}\<degree>C\<close> is kept as its
  three parts: the comparison sign, the number and the unit.
\<close>

datatype comparison = Above | Below

datatype unit_text = degC | mm | m_per_s | percent

datatype threshold_label = Label comparison real unit_text

text \<open>
  \<open>WeatherProbability\<close>: the interface of Earth3DGlobe.tsx has the first five fields, the
  ones of WeatherAnalysisPanel.tsx and of the backend response have all eight; a field
  that an object does not have is \<open>None\<close>.
\<close>

record WeatherProbability =
  condition :: string
  probability :: real
  threshold :: threshold_label
  trend :: trend
  confidence :: real
  historical_mean :: "real option"
  trend_slope :: "real option"
  p_value :: "real option"

record Location =
  lat :: real
  lng :: real

text \<open>
  The thresholds of the globe and of the 2D map. (The globe's object also carries a
  \<open>comfortIndex\<close> of 70, which no function of the analysis reads.)
\<close>

record WeatherThresholds =
  hotTemp :: real
  coldTemp :: real
  precipitation :: real
  windSpeed :: real

section \<open>Earth3DGlobe.tsx: the local calculation and the weighted comfort index\<close>

definition calculateWeatherProbabilitiesLocal ::
    "js_env \<Rightarrow> Location \<Rightarrow> Date \<Rightarrow> WeatherThresholds \<Rightarrow> WeatherProbability list" where
  "calculateWeatherProbabilitiesLocal env loc dt thresholds =
     (let month = getMonth env dt;
          alat = \<bar>lat loc\<bar>
      in [
        \<lparr> condition = ''Very Hot'',
          probability = min 90 (max 5 ((30 - alat) * 2
              + (if holds month (\<lambda>m. m \<ge> 5 \<and> m \<le> 8) then 30 else 0))),
          threshold = Label Above (hotTemp thresholds) degC,
          trend = (if alat < 30 then increasing else stable),
          confidence = 0.85,
          historical_mean = None, trend_slope = None, p_value = None \<rparr>,
        \<lparr> condition = ''Very Cold'',
          probability = min 90 (max 5 (alat * 1.5
              + (if holds month (\<lambda>m. m \<ge> 11 \<or> m \<le> 2) then 40 else 0))),
          threshold = Label Below (coldTemp thresholds) degC,
          trend = (if alat > 40 then increasing else stable),
          confidence = 0.78,
          historical_mean = None, trend_slope = None, p_value = None \<rparr>,
        \<lparr> condition = ''Heavy Rain'',
          probability = min 85 (max 10 (25
              + (if holds month (\<lambda>m. m \<ge> 6 \<and> m \<le> 9) then 35 else 0)
              + (if alat < 10 then 20 else 0))),
          threshold = Label Above (precipitation thresholds) mm,
          trend = increasing,
          confidence = 0.72,
          historical_mean = None, trend_slope = None, p_value = None \<rparr>,
        \<lparr> condition = ''Strong Wind'',
          probability = min 75 (max 8 (15
              + (if alat > 40 then 25 else 0)
              + (if holds month (\<lambda>m. m \<ge> 10 \<or> m \<le> 3) then 20 else 0))),
          threshold = Label Above (windSpeed thresholds) m_per_s,
          trend = stable,
          confidence = 0.65,
          historical_mean = None, trend_slope = None, p_value = None \<rparr>
      ])"





section \<open>WeatherAnalysisPanel.tsx: the comfort value the panel shows\<close>







section \<open>The analysis request and the backend's answer\<close>

record request_thresholds =
  hot_temp :: real
  cold_temp :: real
  precipitation_req :: real
  wind_speed :: real
  air_quality :: "real option"

text \<open>The JSON body of \<open>POST /analyze\<close>; a field a caller leaves out or sets to \<open>undefined\<close> is \<open>None\<close>.\<close>

record analyze_request =
  latitude_req :: real
  longitude_req :: real
  event_date_req :: iso_day
  thresholds_req :: request_thresholds
  is_current_date :: "bool option"
  area_radius_km :: "real option"
  polygon :: "Location list option"

datatype recommendation = Better | Monitor | Risky

record AlternativeDate =
  date :: iso_day
  alt_comfort_index :: real
  offset_days :: int
  recommendation :: recommendation

text \<open>\<open>analysis_date\<close> is written either as a day or as a full time stamp.\<close>

datatype time_text = DayText iso_day | TimeText int

record metadata =
  datasets_used :: "string list"
  years_analyzed :: "string option"
  analysis_date :: "time_text option"
  confidence_level :: "string option"
  data_window :: "string option"
  note_md :: "string option"

record WeatherAnalysisResponse =
  location :: Location
  event_date :: iso_day
  comfort_index :: real
  probabilities :: "WeatherProbability list"
  alternative_dates :: "AlternativeDate list"
  metadata :: metadata

text \<open>
  \<open>fetch\<close> either rejects (no network, no server) or resolves to a response with a status;
  \<open>response.json()\<close> then rejects, or yields an object of the declared response type.
  The backend that answers is not part of the frontend: it is a parameter, a function from
  the request body to what \<open>fetch\<close> gives.
\<close>

datatype fetch_result = Rejected | Response nat "WeatherAnalysisResponse option"

type_synonym backend = "analyze_request \<Rightarrow> fetch_result"

definition ok :: "nat \<Rightarrow> bool" where
  "ok status = (200 \<le> status \<and> status \<le> 299)"

text \<open>The part of a \<open>try\<close> block from \<open>fetch\<close> to the parsed body.\<close>

definition fetch_json :: "backend \<Rightarrow> analyze_request \<Rightarrow> js_error + WeatherAnalysisResponse" where
  "fetch_json backend body =
     (case backend body of
        Rejected \<Rightarrow> Inl FetchRejected
      | Response status json \<Rightarrow>
          if \<not> ok status then Inl (BackendError status)
          else (case json of None \<Rightarrow> Inl JsonRejected | Some data \<Rightarrow> Inr data))"

section \<open>Earth3DGlobe.tsx: analyzeWeatherRisk\<close>





section \<open>DataSourceIndicator.tsx: handleAnalyze of the index page\<close>

text \<open>The threshold toggles of the date and threshold selector; \<open>?.\<close> guards a missing one.\<close>

record toggle =
  enabled :: bool
  value_t :: real

record Thresholds =
  temperature_t :: "toggle option"
  precipitation_t :: "toggle option"
  wind_t :: "toggle option"
  humidity_t :: "toggle option"
  air_quality_t :: "toggle option"

definition enabled_or :: "toggle option \<Rightarrow> real \<Rightarrow> real" where
  "enabled_or t dflt =
     (case t of None \<Rightarrow> dflt | Some x \<Rightarrow> if enabled x then value_t x else dflt)"

record page_state =
  analysisData :: "WeatherAnalysisResponse option"
  showResults :: bool
  isAnalyzing :: bool
  toast_title :: "string option"

text \<open>\<open>new Date(selectedDate.getTime() + k * 24 * 60 * 60 * 1000)\<close>\<close>

definition days_later :: "Date \<Rightarrow> int \<Rightarrow> Date" where
  "days_later dt k = new_Date (map_option (\<lambda>ms. ms + k * msPerDay) (getTime dt))"

text \<open>
  The object literal of the \<open>catch\<close> block, its fields evaluated in order: each
  \<open>toISOString\<close> can throw, and the six calls of \<open>Math.random()\<close> are numbered 0 to 5.
\<close>

definition fallbackAnalysis ::
    "js_env \<Rightarrow> Location \<Rightarrow> Date \<Rightarrow> js_error + WeatherAnalysisResponse" where
  "fallbackAnalysis env selectedLocation selectedDate =
     (case toISOString_day selectedDate of
        Inl e \<Rightarrow> Inl e
      | Inr day0 \<Rightarrow>
     (case toISOString_day (days_later selectedDate 1) of
        Inl e \<Rightarrow> Inl e
      | Inr day1 \<Rightarrow>
     (case toISOString_day (days_later selectedDate 2) of
        Inl e \<Rightarrow> Inl e
      | Inr day2 \<Rightarrow> Inr \<lparr>
          location = \<lparr> lat = lat selectedLocation, lng = lng selectedLocation \<rparr>,
          event_date = day0,
          comfort_index = Math_round (60 + random env 0 * 30),
          probabilities = [
            \<lparr> condition = ''Temperature'',
              probability = Math_round (20 + random env 1 * 30),
              threshold = Label Above 32 degC,
              trend = stable,
              confidence = 0.7,
              historical_mean = Some 28, trend_slope = Some 0.1, p_value = Some 0.05 \<rparr>,
            \<lparr> condition = ''Precipitation'',
              probability = Math_round (10 + random env 2 * 40),
              threshold = Label Above 5 mm,
              trend = stable,
              confidence = 0.6,
              historical_mean = Some 3, trend_slope = Some 0.2, p_value = Some 0.03 \<rparr>,
            \<lparr> condition = ''Wind Speed'',
              probability = Math_round (5 + random env 3 * 25),
              threshold = Label Above 15 m_per_s,
              trend = stable,
              confidence = 0.8,
              historical_mean = Some 8, trend_slope = Some (- 0.1), p_value = Some 0.08 \<rparr> ],
          alternative_dates = [
            \<lparr> date = day1,
              alt_comfort_index = Math_round (70 + random env 4 * 20),
              offset_days = 1,
              recommendation = Better \<rparr>,
            \<lparr> date = day2,
              alt_comfort_index = Math_round (65 + random env 5 * 25),
              offset_days = 2,
              recommendation = Monitor \<rparr> ],
          metadata = \<lparr>
            datasets_used = [''Fallback simulation''],
            years_analyzed = Some ''2020-2024'',
            analysis_date = Some (DayText (now env div msPerDay)),
            confidence_level = Some ''Medium'',
            data_window = Some ''Fallback mode - Backend unavailable'',
            note_md = None \<rparr> \<rparr>)))"

definition Index_request :: "js_env \<Rightarrow> Location \<Rightarrow> Date \<Rightarrow> Thresholds \<Rightarrow> js_error + analyze_request" where
  "Index_request env selectedLocation selectedDate thresholds =
     (case toISOString_day selectedDate of
        Inl e \<Rightarrow> Inl e
      | Inr eventDay \<Rightarrow>
          let isToday = (eventDay = now env div msPerDay)
          in Inr \<lparr>
            latitude_req = lat selectedLocation,
            longitude_req = lng selectedLocation,
            event_date_req = eventDay,
            thresholds_req = \<lparr>
              hot_temp = enabled_or (temperature_t thresholds) 32.0,
              cold_temp = 0.0,
              precipitation_req = enabled_or (precipitation_t thresholds) 5.0,
              wind_speed = enabled_or (wind_t thresholds) 15.0,
              air_quality = Some (enabled_or (air_quality_t thresholds) 25.0) \<rparr>,
            is_current_date = Some isToday,
            area_radius_km = None, polygon = None \<rparr>)"

text \<open>
  The handler returns the page state it leaves, or \<open>Inl\<close> the error that escapes it (its
  promise rejects). Without a location, a date or thresholds it only shows a toast.
\<close>

definition handleAnalyze ::
    "js_env \<Rightarrow> backend \<Rightarrow> page_state \<Rightarrow> Location option \<Rightarrow> Date option \<Rightarrow> Thresholds option
       \<Rightarrow> js_error + page_state" where
  "handleAnalyze env backend st selectedLocation selectedDate thresholds =
     (case (selectedLocation, selectedDate, thresholds) of
        (Some l, Some d, Some th) \<Rightarrow>
          (case (case Index_request env l d th of
                   Inl e \<Rightarrow> Inl e
                 | Inr requestData \<Rightarrow> fetch_json backend requestData) of
             Inr data \<Rightarrow> Inr (st \<lparr> analysisData := Some data, showResults := True,
                 isAnalyzing := False, toast_title := Some ''Analysis Complete!'' \<rparr>)
           | Inl error \<Rightarrow>
               (case fallbackAnalysis env l d of
                  Inl e \<Rightarrow> Inl e
                | Inr fallback \<Rightarrow> Inr (st \<lparr> analysisData := Some fallback, showResults := True,
                    isAnalyzing := False,
                    toast_title := Some ''Analysis Complete (Fallback Mode)'' \<rparr>)))
      | _ \<Rightarrow> Inr (st \<lparr> toast_title := Some ''Missing Information'' \<rparr>))"

section \<open>Map2D.tsx: analyzeWeatherRisk\<close>

record Map2D_state =
  weatherProbabilities_m :: "WeatherProbability list"
  showAnalysis :: bool
  isAnalyzing_m :: bool
  areaRadiusKm :: real

text \<open>\<open>a || b\<close> on numbers: \<open>b\<close> when \<open>a\<close> is \<open>undefined\<close> or 0.\<close>

definition or_number :: "real option \<Rightarrow> real \<Rightarrow> real" where
  "or_number a b = (case a of None \<Rightarrow> b | Some x \<Rightarrow> if x = 0 then b else x)"

definition weatherThresholds_Map2D :: WeatherThresholds where
  "weatherThresholds_Map2D = \<lparr> hotTemp = 32, coldTemp = 0, precipitation = 5, windSpeed = 15 \<rparr>"

text \<open>
  The \<open>try\<close> block up to the call of \<open>fetch\<close>: \<open>Inr body\<close> when the request is sent,
  with the body that is sent.
\<close>

definition Map2D_request ::
    "string \<Rightarrow> Map2D_state \<Rightarrow> real \<Rightarrow> real \<Rightarrow> Date \<Rightarrow> real option \<Rightarrow> Location list option
       \<Rightarrow> js_error + analyze_request" where
  "Map2D_request BACKEND_URL st lat_arg lng_arg dt radiusKm polygon_arg =
     (if BACKEND_URL = [] then Inl NoBackendConfigured
      else (case toISOString_day dt of
          Inl e \<Rightarrow> Inl e
        | Inr day \<Rightarrow> Inr \<lparr>
            latitude_req = lat_arg,
            longitude_req = lng_arg,
            event_date_req = day,
            thresholds_req = \<lparr>
              hot_temp = hotTemp weatherThresholds_Map2D,
              cold_temp = coldTemp weatherThresholds_Map2D,
              precipitation_req = precipitation weatherThresholds_Map2D,
              wind_speed = windSpeed weatherThresholds_Map2D,
              air_quality = None \<rparr>,
            is_current_date = None,
            area_radius_km = Some (or_number radiusKm (or_number (Some (areaRadiusKm st)) 0)),
            polygon = (case polygon_arg of
                None \<Rightarrow> None
              | Some ps \<Rightarrow>
                  if length ps \<ge> 3 then Some (map (\<lambda>p. \<lparr> lat = lat p, lng = lng p \<rparr>) ps)
                  else None) \<rparr>))"

definition fallbackProbabilities :: "js_env \<Rightarrow> WeatherProbability list" where
  "fallbackProbabilities env = [
     \<lparr> condition = ''Temperature'', probability = random env 0 * 30 + 20,
       threshold = Label Above 32 degC, trend = stable, confidence = 0.7,
       historical_mean = None, trend_slope = None, p_value = None \<rparr>,
     \<lparr> condition = ''Precipitation'', probability = random env 1 * 40 + 10,
       threshold = Label Above 5 mm, trend = stable, confidence = 0.6,
       historical_mean = None, trend_slope = None, p_value = None \<rparr>,
     \<lparr> condition = ''Wind Speed'', probability = random env 2 * 25 + 5,
       threshold = Label Above 15 m_per_s, trend = stable, confidence = 0.8,
       historical_mean = None, trend_slope = None, p_value = None \<rparr> ]"

definition analyzeWeatherRisk_Map2D ::
    "js_env \<Rightarrow> string \<Rightarrow> backend \<Rightarrow> Map2D_state \<Rightarrow> real \<Rightarrow> real \<Rightarrow> Date \<Rightarrow> real option
       \<Rightarrow> Location list option \<Rightarrow> js_error + Map2D_state" where
  "analyzeWeatherRisk_Map2D env BACKEND_URL backend st lat_arg lng_arg dt radiusKm polygon_arg =
     (case (case Map2D_request BACKEND_URL st lat_arg lng_arg dt radiusKm polygon_arg of
              Inl e \<Rightarrow> Inl e
            | Inr body \<Rightarrow> fetch_json backend body) of
        Inr data \<Rightarrow> Inr (st \<lparr> weatherProbabilities_m := probabilities data,
            showAnalysis := True, isAnalyzing_m := False \<rparr>)
      | Inl e \<Rightarrow> Inr (st \<lparr> weatherProbabilities_m := fallbackProbabilities env,
            showAnalysis := True, isAnalyzing_m := False \<rparr>))"

section \<open>WeatherAnalysis.tsx: the CSV export of the dashboard\<close>

record metric =
  value_w :: real
  probability_w :: real
  trend_w :: real

record WeatherData =
  temperature_w :: metric
  precipitation_w :: metric
  wind_w :: metric
  humidity_w :: metric
  comfortScore :: real
  alternativeDates :: "string list"

text \<open>\<open>data || { ... }\<close>: the dashboard's built-in figures, which the source marks as simulated data for the demo.\<close>

definition weatherData :: "WeatherData option \<Rightarrow> WeatherData" where
  "weatherData data_prop =
     (case data_prop of
        Some d \<Rightarrow> d
      | None \<Rightarrow> \<lparr>
          temperature_w = \<lparr> value_w = 32, probability_w = 22, trend_w = 0.3 \<rparr>,
          precipitation_w = \<lparr> value_w = 5, probability_w = 35, trend_w = 0.5 \<rparr>,
          wind_w = \<lparr> value_w = 15, probability_w = 12, trend_w = - 0.1 \<rparr>,
          humidity_w = \<lparr> value_w = 70, probability_w = 45, trend_w = 0.2 \<rparr>,
          comfortScore = 72,
          alternativeDates = [''July 2'', ''July 8'', ''July 15''] \<rparr>)"

record NamedLocation = Location +
  name :: "string option"

text \<open>\<open>s.includes(sub)\<close>: \<open>sub\<close> occurs in \<open>s\<close> as a run of consecutive characters.\<close>

fun includes_str :: "string \<Rightarrow> string \<Rightarrow> bool" where
  "includes_str [] sub = (sub = [])"
| "includes_str (c # cs) sub = (take (length sub) (c # cs) = sub \<or> includes_str cs sub)"

text \<open>Characters outside ASCII are given as the bytes of their UTF-8 encoding.\<close>

definition export_metadata :: "js_env \<Rightarrow> WeatherAnalysisResponse option \<Rightarrow> metadata" where
  "export_metadata env analysisData_prop =
     (case analysisData_prop of
        Some a \<Rightarrow> metadata a
      | None \<Rightarrow> \<lparr>
          datasets_used = [''MERRA-2'', ''GPM IMERG''],
          years_analyzed = Some ''1990-2024'',
          analysis_date = Some (TimeText (now env)),
          confidence_level = Some ''85%'',
          data_window = Some ([CHR 0xC2, CHR 0xB1] @ ''7 days''),
          note_md = None \<rparr>)"

definition export_probabilities ::
    "WeatherData \<Rightarrow> WeatherAnalysisResponse option \<Rightarrow> WeatherProbability list" where
  "export_probabilities wd analysisData_prop =
     (case analysisData_prop of
        Some a \<Rightarrow> probabilities a
      | None \<Rightarrow> [
          \<lparr> condition = ''Very Hot'', probability = probability_w (temperature_w wd),
            threshold = Label Above 32 degC, trend = increasing, confidence = 0.85,
            historical_mean = Some 28.3, trend_slope = Some 0.025, p_value = Some 0.04 \<rparr>,
          \<lparr> condition = ''Heavy Rain'', probability = probability_w (precipitation_w wd),
            threshold = Label Above 5 mm, trend = stable, confidence = 0.72,
            historical_mean = Some 3.2, trend_slope = Some 0.005, p_value = Some 0.25 \<rparr>,
          \<lparr> condition = ''Strong Wind'', probability = probability_w (wind_w wd),
            threshold = Label Above 15 m_per_s, trend = stable, confidence = 0.65,
            historical_mean = Some 8.5, trend_slope = Some (- 0.001), p_value = Some 0.30 \<rparr>,
          \<lparr> condition = ''High Humidity'', probability = probability_w (humidity_w wd),
            threshold = Label Above 70 percent, trend = increasing, confidence = 0.78,
            historical_mean = Some 65.2, trend_slope = Some 0.02, p_value = Some 0.06 \<rparr> ])"

text \<open>
  One line of the CSV, column by column. The digits that \<open>toFixed\<close> keeps are not
  modelled: a number column holds the number. \<open>toFixed\<close> on a field that is missing
  throws a \<open>TypeError\<close>.
\<close>

record csv_row =
  col_Location :: string
  col_Latitude :: real
  col_Longitude :: real
  col_Date :: iso_day
  col_WindowDays :: nat
  col_Variable :: string
  col_Threshold :: threshold_label
  col_Probability :: real
  col_Units :: string
  col_YearsUsed :: "string option"
  col_Dataset :: string
  col_TrendSlope :: real
  col_TrendPValue :: real
  col_Confidence :: real
  col_HistoricalMean :: real
  col_Recommendation :: string

definition dataset_of :: "string \<Rightarrow> string" where
  "dataset_of cond =
     (if includes_str cond ''Rain'' \<or> includes_str cond ''Precipitation'' then ''GPM IMERG''
      else ''MERRA-2'')"

text \<open>The unit is read off the label's text: the degree sign and C, then mm, then m/s.\<close>

fun units_of :: "threshold_label \<Rightarrow> string" where
  "units_of (Label c v degC) = ''degC''"
| "units_of (Label c v mm) = ''mm/day''"
| "units_of (Label c v m_per_s) = ''m/s''"
| "units_of (Label c v percent) = ''percent''"

definition risk_text :: "real \<Rightarrow> string" where
  "risk_text p = (if p < 20 then ''Low Risk'' else if p < 40 then ''Moderate Risk'' else ''High Risk'')"

definition csv_line ::
    "string \<Rightarrow> NamedLocation \<Rightarrow> iso_day \<Rightarrow> metadata \<Rightarrow> WeatherProbability \<Rightarrow> js_error + csv_row" where
  "csv_line locationName loc eventDay md prob =
     (let dataset = dataset_of (condition prob);
          units = units_of (threshold prob);
          recommendation_text = risk_text (probability prob)
      in case (trend_slope prob, p_value prob, historical_mean prob) of
           (Some slope, Some pv, Some mean) \<Rightarrow> Inr \<lparr>
             col_Location = locationName,
             col_Latitude = lat loc,
             col_Longitude = lng loc,
             col_Date = eventDay,
             col_WindowDays = 7,
             col_Variable = condition prob,
             col_Threshold = threshold prob,
             col_Probability = probability prob,
             col_Units = units,
             col_YearsUsed = years_analyzed md,
             col_Dataset = dataset,
             col_TrendSlope = slope,
             col_TrendPValue = pv,
             col_Confidence = confidence prob,
             col_HistoricalMean = mean,
             col_Recommendation = recommendation_text \<rparr>
         | _ \<Rightarrow> Inl TypeError_undefined)"

text \<open>The \<open>forEach\<close> loop over the probabilities: the first line that throws ends it.\<close>

fun csv_lines ::
    "string \<Rightarrow> NamedLocation \<Rightarrow> iso_day \<Rightarrow> metadata \<Rightarrow> WeatherProbability list
       \<Rightarrow> js_error + csv_row list" where
  "csv_lines locationName loc eventDay md [] = Inr []"
| "csv_lines locationName loc eventDay md (prob # rest) =
     (case csv_line locationName loc eventDay md prob of
        Inl e \<Rightarrow> Inl e
      | Inr row \<Rightarrow>
          (case csv_lines locationName loc eventDay md rest of
             Inl e \<Rightarrow> Inl e
           | Inr more_rows \<Rightarrow> Inr (row # more_rows)))"

record csv_export =
  csv_rows :: "csv_row list"
  csv_alternatives :: "AlternativeDate list option"

definition handleExportCSV ::
    "js_env \<Rightarrow> NamedLocation \<Rightarrow> Date \<Rightarrow> WeatherData option \<Rightarrow> WeatherAnalysisResponse option
       \<Rightarrow> js_error + csv_export" where
  "handleExportCSV env loc dt data_prop analysisData_prop =
     (let md = export_metadata env analysisData_prop;
          probs = export_probabilities (weatherData data_prop) analysisData_prop;
          locationName = (case name loc of Some n \<Rightarrow> if n = [] then ''Selected Location'' else n
                          | None \<Rightarrow> ''Selected Location'')
      in case toISOString_day dt of
           Inl e \<Rightarrow> Inl e
         | Inr eventDay \<Rightarrow>
             (case csv_lines locationName loc eventDay md probs of
                Inl e \<Rightarrow> Inl e
              | Inr lines \<Rightarrow> Inr \<lparr>
                  csv_rows = lines,
                  csv_alternatives = map_option alternative_dates analysisData_prop \<rparr>))"

section \<open>Notions used by the properties\<close>


text \<open>No source is reachable: whatever the request, the call of the backend fails.\<close>

definition unreachable :: "backend \<Rightarrow> bool" where
  "unreachable backend = (\<forall>body. isl (fetch_json backend body))"

text \<open>
  A date the index page can plan around: a valid date whose next two days are valid dates
  too (every date but the last two days that a \<open>Date\<close> can hold).
\<close>

fun plannable :: "Date \<Rightarrow> bool" where
  "plannable (Date ms) = (- maxTime \<le> ms \<and> ms + 2 * msPerDay \<le> maxTime)"
| "plannable InvalidDate = False"






text \<open>
  The recommendation as the specification words it, for comparison with the code:
  relative to the baseline comfort index and a fixed margin.
\<close>

definition classify_spec :: "real \<Rightarrow> real \<Rightarrow> real \<Rightarrow> recommendation" where
  "classify_spec margin baseline candidate =
     (if candidate > baseline + margin then Better
      else if candidate < baseline - margin then Risky
      else Monitor)"

subsection \<open>A sample request\<close>

text \<open>
  New Delhi on 4 July 2025 (day 20273 after the epoch, a local month of July), default
  thresholds, every draw of \<open>Math.random()\<close> equal to \<open>r\<close>, and a backend that cannot be
  reached or that answers with a fixed analysis.
\<close>

definition sample_env :: "real \<Rightarrow> js_env" where
  "sample_env r = \<lparr> random = (\<lambda>i. r), now = 1751587200000, local_month = (\<lambda>ms. 6) \<rparr>"

text \<open>The same environment with the first draw 0 and every later draw 0.99.\<close>

definition late_draws_env :: js_env where
  "late_draws_env = (sample_env 0) \<lparr> random := (\<lambda>i. if i = 0 then 0 else 0.99) \<rparr>"

definition sample_location :: Location where
  "sample_location = \<lparr> lat = 28.61, lng = 77.21 \<rparr>"

definition sample_date :: Date where
  "sample_date = Date 1751587200000"


definition sample_toggles :: Thresholds where
  "sample_toggles = \<lparr>
     temperature_t = Some \<lparr> enabled = True, value_t = 32 \<rparr>,
     precipitation_t = Some \<lparr> enabled = True, value_t = 5 \<rparr>,
     wind_t = Some \<lparr> enabled = True, value_t = 15 \<rparr>,
     humidity_t = None,
     air_quality_t = None \<rparr>"

definition offline :: backend where
  "offline = (\<lambda>body. Rejected)"

definition sample_answer :: WeatherAnalysisResponse where
  "sample_answer = \<lparr>
     location = sample_location,
     event_date = 20273,
     comfort_index = 58,
     probabilities = [
       \<lparr> condition = ''Very Hot'', probability = 61.3, threshold = Label Above 32 degC,
         trend = increasing, confidence = 0.9,
         historical_mean = Some 33.1, trend_slope = Some 0.03, p_value = Some 0.02 \<rparr> ],
     alternative_dates = [],
     metadata = \<lparr>
       datasets_used = [''NASA POWER''],
       years_analyzed = Some ''1990-2024'',
       analysis_date = Some (DayText 20273),
       confidence_level = Some ''High'',
       data_window = Some ''7 days'',
       note_md = None \<rparr> \<rparr>"

definition online :: backend where
  "online = (\<lambda>body. Response 200 (Some sample_answer))"

definition initial_page :: page_state where
  "initial_page = \<lparr> analysisData = None, showResults = False, isAnalyzing = False,
     toast_title = None \<rparr>"

definition initial_map :: Map2D_state where
  "initial_map = \<lparr> weatherProbabilities_m = [], showAnalysis = False, isAnalyzing_m = False,
     areaRadiusKm = 0 \<rparr>"

definition two_points :: "Location list" where
  "two_points = [\<lparr> lat = 28.60, lng = 77.20 \<rparr>, \<lparr> lat = 28.62, lng = 77.22 \<rparr>]"



section \<open>Auxiliary facts\<close>












subsection \<open>Rounded draws\<close>



subsection \<open>Days\<close>

lemma msPerDay_pos: "0 < msPerDay"
  by (simp add: msPerDay_def)

lemma day_shift: "(ms + k * msPerDay) div msPerDay = ms div msPerDay + k"
  using msPerDay_pos by simp

lemma days_later_Date:
  "toISOString_day (days_later (Date ms) k) = Inr day \<Longrightarrow> day = ms div msPerDay + k"
  by (simp add: days_later_def new_Date_def day_shift split: if_splits)

lemma days_later_Invalid: "toISOString_day (days_later InvalidDate k) = Inl RangeError_InvalidTime"
  by (simp add: days_later_def new_Date_def)

lemma days_later_plannable:
  assumes "plannable (Date ms)" "k = 1 \<or> k = 2"
  shows "toISOString_day (days_later (Date ms) k) = Inr (ms div msPerDay + k)"
proof -
  have "- maxTime \<le> ms" "ms + 2 * msPerDay \<le> maxTime" using assms(1) by simp_all
  moreover have "0 \<le> k * msPerDay" "k * msPerDay \<le> 2 * msPerDay"
    using assms(2) msPerDay_pos by auto
  ultimately have "\<bar>ms + k * msPerDay\<bar> \<le> maxTime" by linarith
  then show ?thesis by (simp add: days_later_def new_Date_def day_shift)
qed

lemma plannable_sample: "plannable sample_date"
  by (simp add: sample_date_def maxTime_def msPerDay_def)

subsection \<open>The fallback analysis of the index page\<close>

lemma fallbackAnalysis_fields:
  assumes "fallbackAnalysis env l d = Inr fb"
  shows "\<exists>ms. d = Date ms
     \<and> event_date fb = ms div msPerDay
     \<and> comfort_index fb = Math_round (60 + random env 0 * 30)
     \<and> map probability (probabilities fb) =
          [Math_round (20 + random env 1 * 30), Math_round (10 + random env 2 * 40),
           Math_round (5 + random env 3 * 25)]
     \<and> map date (alternative_dates fb) = [ms div msPerDay + 1, ms div msPerDay + 2]
     \<and> map alt_comfort_index (alternative_dates fb) =
          [Math_round (70 + random env 4 * 20), Math_round (65 + random env 5 * 25)]
     \<and> map offset_days (alternative_dates fb) = [1, 2]
     \<and> map recommendation (alternative_dates fb) = [Better, Monitor]
     \<and> datasets_used (metadata fb) = [''Fallback simulation'']"
proof (cases d)
  case InvalidDate
  with assms show ?thesis by (simp add: fallbackAnalysis_def)
next
  case (Date ms)
  from assms obtain day1 day2 where
    d1: "toISOString_day (days_later (Date ms) 1) = Inr day1" and
    d2: "toISOString_day (days_later (Date ms) 2) = Inr day2"
    unfolding Date fallbackAnalysis_def by (auto split: sum.splits)
  from days_later_Date [OF d1] days_later_Date [OF d2] assms d1 d2 show ?thesis
    unfolding Date fallbackAnalysis_def by auto
qed

lemma fallbackAnalysis_plannable:
  assumes "plannable d"
  shows "\<exists>fb. fallbackAnalysis env l d = Inr fb"
proof -
  from assms obtain ms where d: "d = Date ms" by (cases d) simp_all
  with assms have "plannable (Date ms)" by simp
  from days_later_plannable [OF this, of 1] days_later_plannable [OF this, of 2]
  show ?thesis unfolding d fallbackAnalysis_def by simp
qed



subsection \<open>The handlers when the backend call fails\<close>

lemma unreachable_fetch: "unreachable backend \<Longrightarrow> \<exists>e. fetch_json backend body = Inl e"
  unfolding unreachable_def by (metis isl_def)

lemma unreachable_offline: "unreachable offline"
  by (simp add: unreachable_def offline_def fetch_json_def)







lemma handleAnalyze_unreachable:
  assumes "unreachable backend"
  shows "handleAnalyze env backend st (Some l) (Some d) (Some tg) =
     (case fallbackAnalysis env l d of
        Inl e \<Rightarrow> Inl e
      | Inr fb \<Rightarrow> Inr (st \<lparr> analysisData := Some fb, showResults := True,
                    isAnalyzing := False,
                    toast_title := Some ''Analysis Complete (Fallback Mode)'' \<rparr>))"
proof (cases "Index_request env l d tg")
  case (Inl e)
  then show ?thesis by (simp add: handleAnalyze_def)
next
  case (Inr body)
  from unreachable_fetch [OF assms, of body] obtain e where "fetch_json backend body = Inl e" ..
  with Inr show ?thesis by (simp add: handleAnalyze_def)
qed

lemma handleAnalyze_plannable:
  assumes "plannable d"
  shows "\<exists>s a. handleAnalyze env backend st (Some l) (Some d) (Some tg) = Inr s
            \<and> analysisData s = Some a \<and> showResults s"
  using fallbackAnalysis_plannable [OF assms, of env l]
  by (auto simp add: handleAnalyze_def split: sum.splits)

text \<open>
  Outside the dates the page can plan around, the \<open>catch\<close> block itself throws: on the
  last day a \<open>Date\<close> can hold, the day after is an invalid date.
\<close>

lemma handleAnalyze_last_day:
  "handleAnalyze env offline pst (Some l) (Some (Date maxTime)) (Some tg)
     = Inl RangeError_InvalidTime"
  unfolding handleAnalyze_unreachable [OF unreachable_offline]
  by (simp add: fallbackAnalysis_def days_later_def new_Date_def maxTime_def msPerDay_def)



subsection \<open>Ranges and the environment\<close>









subsection \<open>The request of the 2D map\<close>

lemma map_Location_rebuild: "map (\<lambda>p. \<lparr> lat = lat p, lng = lng p \<rparr>) ps = (ps :: Location list)"
  by (induction ps) simp_all

lemma Map2D_request_isl:
  "isl (Map2D_request url st la lo dt rad poly) = (url = [] \<or> dt = InvalidDate)"
  by (cases dt) (simp_all add: Map2D_request_def)

lemma Map2D_request_short:
  "length ps < 3 \<Longrightarrow>
     Map2D_request url st la lo dt rad (Some ps) = Map2D_request url st la lo dt rad None"
  by (simp add: Map2D_request_def split: sum.split)

lemma Map2D_request_polygon:
  "3 \<le> length ps \<Longrightarrow> Map2D_request url st la lo dt rad (Some ps) = Inr body
     \<Longrightarrow> polygon body = Some ps"
  by (auto simp add: Map2D_request_def map_Location_rebuild split: if_splits sum.splits)

section \<open>Provenance of the data\<close>

text \<open>
  C1. An analysis made without backend data should name only the sources that supplied
  it. The fallbacks of the globe and of the index page do (\<open>Fallback simulation\<close>),
  but the dashboard's CSV export does not: with no analysis data at all it takes
  \<open>MERRA-2\<close> and \<open>GPM IMERG\<close> as the datasets used and writes them in the
  \<open>Dataset\<close> column of the rows made from its built-in demo figures; and given the
  index page's fallback analysis, whose metadata says \<open>Fallback simulation\<close>, it still
  writes \<open>MERRA-2\<close>, \<open>GPM IMERG\<close>, \<open>MERRA-2\<close>, the column being chosen from the
  condition's name alone.
\<close>

theorem csv_export_names_unused_providers:
  "datasets_used (export_metadata env None) = [''MERRA-2'', ''GPM IMERG'']
   \<and> map_sum id (\<lambda>e. map col_Dataset (csv_rows e))
        (handleExportCSV env nloc sample_date None None)
       = Inr [''MERRA-2'', ''GPM IMERG'', ''MERRA-2'', ''MERRA-2'']
   \<and> (\<exists>a. fallbackAnalysis env l sample_date = Inr a
          \<and> datasets_used (metadata a) = [''Fallback simulation'']
          \<and> map_sum id (\<lambda>e. map col_Dataset (csv_rows e))
               (handleExportCSV env nloc sample_date dta (Some a))
              = Inr [''MERRA-2'', ''GPM IMERG'', ''MERRA-2''])"
proof -
  have m: "datasets_used (export_metadata env None) = [''MERRA-2'', ''GPM IMERG'']"
    by (simp add: export_metadata_def)
  have d: "dataset_of ''Very Hot'' = ''MERRA-2''" "dataset_of ''Heavy Rain'' = ''GPM IMERG''"
    "dataset_of ''Strong Wind'' = ''MERRA-2''" "dataset_of ''High Humidity'' = ''MERRA-2''"
    "dataset_of ''Temperature'' = ''MERRA-2''" "dataset_of ''Precipitation'' = ''GPM IMERG''"
    "dataset_of ''Wind Speed'' = ''MERRA-2''"
    by (simp_all add: dataset_of_def)
  have n: "map_sum id (\<lambda>e. map col_Dataset (csv_rows e))
        (handleExportCSV env nloc sample_date None None)
       = Inr [''MERRA-2'', ''GPM IMERG'', ''MERRA-2'', ''MERRA-2'']"
    by (simp add: handleExportCSV_def Let_def export_probabilities_def csv_line_def d
        sample_date_def)
  have f: "\<exists>a. fallbackAnalysis env l sample_date = Inr a
          \<and> datasets_used (metadata a) = [''Fallback simulation'']
          \<and> map_sum id (\<lambda>e. map col_Dataset (csv_rows e))
               (handleExportCSV env nloc sample_date dta (Some a))
              = Inr [''MERRA-2'', ''GPM IMERG'', ''MERRA-2'']"
    by (simp add: fallbackAnalysis_def days_later_def new_Date_def maxTime_def msPerDay_def
        handleExportCSV_def Let_def export_probabilities_def csv_line_def d sample_date_def)
  from m n f show ?thesis by blast
qed


section \<open>Repeated runs\<close>




section \<open>The comfort score\<close>





section \<open>The local calculation and the thresholds\<close>

text \<open>
  C9. In the local calculation a probability depends on the latitude and the month
  only; the thresholds enter the labels and nothing else. Between any two threshold
  sets, so also when a threshold is raised, the entries keep their conditions and no
  probability increases.
\<close>

theorem local_probability_ignores_thresholds:
  "list_all2 (\<lambda>p p'. condition p' = condition p \<and> probability p' \<le> probability p)
     (calculateWeatherProbabilitiesLocal env loc dt thresholds)
     (calculateWeatherProbabilitiesLocal env loc dt thresholds')"
  by (simp add: calculateWeatherProbabilitiesLocal_def Let_def)

section \<open>Ranges\<close>



section \<open>Alternative dates\<close>

text \<open>
  C5, as the claim states it, fails: in the fallback analysis of the index page the
  recommendation does not come from a comparison with the baseline. With a first draw
  of 0 and later draws of 0.99 the baseline comfort index is 60 and both alternatives
  have a comfort index of 90, yet one is labelled \<open>Better\<close> and the other \<open>Monitor\<close>:
  no margin classifies both as the code labels them.
\<close>

theorem fallback_labels_not_by_comparison:
  "\<exists>a. fallbackAnalysis late_draws_env sample_location sample_date = Inr a
      \<and> comfort_index a = 60
      \<and> map alt_comfort_index (alternative_dates a) = [90, 90]
      \<and> map recommendation (alternative_dates a) = [Better, Monitor]
      \<and> \<not> (\<exists>margin. list_all
            (\<lambda>alt. recommendation alt = classify_spec margin (comfort_index a) (alt_comfort_index alt))
            (alternative_dates a))"
proof -
  from fallbackAnalysis_plannable [OF plannable_sample, of late_draws_env sample_location]
  obtain a where a: "fallbackAnalysis late_draws_env sample_location sample_date = Inr a" ..
  from fallbackAnalysis_fields [OF a] have
    c: "comfort_index a = 60" and
    q: "map alt_comfort_index (alternative_dates a) = [90, 90]" and
    r: "map recommendation (alternative_dates a) = [Better, Monitor]"
    by (auto simp add: late_draws_env_def sample_env_def Math_round_def)
  from q r obtain a1 a2 where l: "alternative_dates a = [a1, a2]"
    and "alt_comfort_index a1 = 90" "alt_comfort_index a2 = 90"
    and "recommendation a1 = Better" "recommendation a2 = Monitor"
    by (auto simp add: map_eq_Cons_conv)
  then have n: "\<not> (\<exists>margin. list_all
            (\<lambda>alt. recommendation alt = classify_spec margin (comfort_index a) (alt_comfort_index alt))
            (alternative_dates a))"
    by auto
  show ?thesis
  proof (intro exI [of _ a] conjI)
    show "fallbackAnalysis late_draws_env sample_location sample_date = Inr a" by (fact a)
    show "comfort_index a = 60" by (fact c)
    show "map alt_comfort_index (alternative_dates a) = [90, 90]" by (fact q)
    show "map recommendation (alternative_dates a) = [Better, Monitor]" by (fact r)
    show "\<not> (\<exists>margin. list_all
            (\<lambda>alt. recommendation alt = classify_spec margin (comfort_index a) (alt_comfort_index alt))
            (alternative_dates a))" by (fact n)
  qed
qed

text \<open>
  C5, as the code has it. In the analysis that the index page makes when the backend is
  out of reach, the recommendation is fixed by the entry: the alternative at offset 1
  is always \<open>Better\<close> and the one at offset 2 always \<open>Monitor\<close>, whatever the comfort
  indices are; \<open>Risky\<close> is never given.
\<close>

theorem fallback_recommendation_fixed_by_offset:
  assumes "unreachable backend"
      and "handleAnalyze env backend pst (Some l) (Some d) (Some tg) = Inr s"
  shows "\<exists>a. analysisData s = Some a
           \<and> map (\<lambda>alt. (offset_days alt, recommendation alt)) (alternative_dates a)
               = [(1, Better), (2, Monitor)]"
proof -
  from assms obtain a where a: "fallbackAnalysis env l d = Inr a" and s: "analysisData s = Some a"
    unfolding handleAnalyze_unreachable [OF assms(1)] by (auto split: sum.splits)
  from fallbackAnalysis_fields [OF a] have
    "map offset_days (alternative_dates a) = [1, 2]"
    "map recommendation (alternative_dates a) = [Better, Monitor]"
    by auto
  then have "map (\<lambda>alt. (offset_days alt, recommendation alt)) (alternative_dates a)
               = [(1, Better), (2, Monitor)]"
    by (auto simp add: map_eq_Cons_conv)
  with s show ?thesis by simp
qed

text \<open>
  The theorem at the sample request, with the backend offline.
\<close>

theorem fallback_recommendation_sample:
  "unreachable offline
   \<and> (\<exists>s a. handleAnalyze late_draws_env offline initial_page (Some sample_location)
              (Some sample_date) (Some sample_toggles) = Inr s
          \<and> analysisData s = Some a
          \<and> map (\<lambda>alt. (offset_days alt, recommendation alt)) (alternative_dates a)
               = [(1, Better), (2, Monitor)])"
proof -
  note h1 = unreachable_offline
  from handleAnalyze_plannable [OF plannable_sample, of late_draws_env offline initial_page
      sample_location sample_toggles]
  obtain s where h2: "handleAnalyze late_draws_env offline initial_page (Some sample_location)
      (Some sample_date) (Some sample_toggles) = Inr s"
    by blast
  from fallback_recommendation_fixed_by_offset [OF h1 h2]
  obtain a where "analysisData s = Some a"
    "map (\<lambda>alt. (offset_days alt, recommendation alt)) (alternative_dates a)
       = [(1, Better), (2, Monitor)]"
    by auto
  with h1 h2 show ?thesis by auto
qed



section \<open>Polygons\<close>

text \<open>
  C7, as the claim states it, fails: a polygon of two points is not rejected. The 2D
  map sends the request, with the \<open>polygon\<close> field left out, and shows the analysis
  that the backend returns.
\<close>

theorem short_polygon_not_rejected:
  "length two_points = 2
   \<and> (\<exists>body. Map2D_request ''https://api.example'' initial_map 28.61 77.21 sample_date None
               (Some two_points) = Inr body
            \<and> polygon body = None)
   \<and> analyzeWeatherRisk_Map2D (sample_env 0) ''https://api.example'' online initial_map
         28.61 77.21 sample_date None (Some two_points)
       = Inr (initial_map \<lparr> weatherProbabilities_m := probabilities sample_answer,
                showAnalysis := True \<rparr>)"
  by (simp add: two_points_def Map2D_request_def analyzeWeatherRisk_Map2D_def sample_date_def
      online_def fetch_json_def ok_def initial_map_def)

text \<open>
  C7, as the code has it. A polygon of fewer than three points is dropped: the request
  and the outcome of the analysis are those of the same call without a polygon. A
  polygon of three points or more is sent as it is. Whether the request is sent depends
  on the backend URL and the date only, not on the polygon.
\<close>

theorem short_polygon_dropped:
  "(length ps < 3 \<longrightarrow>
      Map2D_request url st la lo dt rad (Some ps) = Map2D_request url st la lo dt rad None
    \<and> analyzeWeatherRisk_Map2D env url backend st la lo dt rad (Some ps)
        = analyzeWeatherRisk_Map2D env url backend st la lo dt rad None)
   \<and> (3 \<le> length ps \<longrightarrow>
        (\<forall>body. Map2D_request url st la lo dt rad (Some ps) = Inr body
           \<longrightarrow> polygon body = Some ps))
   \<and> isl (Map2D_request url st la lo dt rad poly) = (url = [] \<or> dt = InvalidDate)"
  using Map2D_request_short [of ps url st la lo dt rad]
    Map2D_request_polygon [of ps url st la lo dt rad]
    Map2D_request_isl [of url st la lo dt rad poly]
  by (auto simp add: analyzeWeatherRisk_Map2D_def)

text \<open>
  The theorem at the sample request, with a polygon of two points and one of three.
\<close>

theorem short_polygon_dropped_sample:
  "length two_points < 3
   \<and> Map2D_request ''https://api.example'' initial_map 28.61 77.21 sample_date None
        (Some two_points)
       = Map2D_request ''https://api.example'' initial_map 28.61 77.21 sample_date None None
   \<and> analyzeWeatherRisk_Map2D (sample_env 0) ''https://api.example'' online initial_map
         28.61 77.21 sample_date None (Some two_points)
       = analyzeWeatherRisk_Map2D (sample_env 0) ''https://api.example'' online initial_map
         28.61 77.21 sample_date None None
   \<and> \<not> isl (Map2D_request ''https://api.example'' initial_map 28.61 77.21 sample_date None
        (Some two_points))
   \<and> 3 \<le> length (sample_location # two_points)
   \<and> (\<exists>body. Map2D_request ''https://api.example'' initial_map 28.61 77.21 sample_date None
        (Some (sample_location # two_points)) = Inr body
         \<and> polygon body = Some (sample_location # two_points))"
proof -
  have h: "length two_points < 3" "3 \<le> length (sample_location # two_points)"
    by (simp_all add: two_points_def)
  have s: "\<not> isl (Map2D_request ''https://api.example'' initial_map 28.61 77.21 sample_date None
        (Some (sample_location # two_points)))"
    by (simp add: Map2D_request_isl sample_date_def)
  then obtain body where b: "Map2D_request ''https://api.example'' initial_map 28.61 77.21
      sample_date None (Some (sample_location # two_points)) = Inr body"
    by (cases "Map2D_request ''https://api.example'' initial_map 28.61 77.21
      sample_date None (Some (sample_location # two_points))") simp_all
  from short_polygon_dropped [where ps = two_points and url = "''https://api.example''"
      and st = initial_map and la = "28.61" and lo = "77.21" and dt = sample_date
      and rad = None and env = "sample_env 0" and backend = online
      and poly = "Some two_points"]
    short_polygon_dropped [where ps = "sample_location # two_points"
      and url = "''https://api.example''"
      and st = initial_map and la = "28.61" and lo = "77.21" and dt = sample_date
      and rad = None and env = "sample_env 0" and backend = online
      and poly = "Some two_points"]
    h b
  show ?thesis by (simp add: sample_date_def)
qed

section \<open>Failure of the backend\<close>



end
